theory Spec2Isabelle
  imports Complex_Main "HOL-Library.Multiset"
begin

section \<open>Python values\<close>

text \<open>
  The two programs \<^verbatim>\<open>app.py\<close> and \<^verbatim>\<open>app3.py\<close> define the same three functions,
  \<^verbatim>\<open>get_yahoo_symbol_via_api\<close>, \<^verbatim>\<open>fetch_single_stock\<close> and
  \<^verbatim>\<open>fetch_yahoo_tickers_parallel\<close>. The functions of \<^verbatim>\<open>app.py\<close> keep their names; those
  of \<^verbatim>\<open>app3.py\<close> carry the suffix 3.

  Exceptions are values: a computation that may raise returns \<open>exn + 'a\<close>, with \<open>Inl\<close> the
  exception. Every exception listed here is a subclass of Python's \<^verbatim>\<open>Exception\<close>, so the
  bare \<^verbatim>\<open>except:\<close> of \<^verbatim>\<open>app.py\<close> and the \<^verbatim>\<open>except Exception:\<close> of \<^verbatim>\<open>app3.py\<close> catch
  the same ones.
\<close>

datatype exn =
    AttributeError
  | TypeError
  | IndexError
  | ValueError
  | RequestException
  | JSONDecodeError
  | ProviderError

text \<open>A float is a finite number (an exact rational here) or NaN.\<close>

datatype pyfloat = Fin rat | NaN

text \<open>
  The scalar values a cell of a DataFrame read from a CSV file holds; the arguments
  \<^verbatim>\<open>company_name\<close>, \<^verbatim>\<open>symbol\<close> and \<^verbatim>\<open>isin\<close> are such cells.
\<close>

datatype pyval =
    PNone
  | PBool bool
  | PInt int
  | PFloat pyfloat
  | PStr string

text \<open>
  A parsed JSON document, as \<^verbatim>\<open>r.json()\<close> returns it. \<open>JNull\<close> is Python's \<^verbatim>\<open>None\<close>.
  An object is the list of the items of the Python dict, whose keys are distinct.
\<close>

datatype json =
    JNull
  | JBool bool
  | JNum rat
  | JStr string
  | JArr "json list"
  | JObj "(string \<times> json) list"

section \<open>The symbol resolver\<close>

text \<open>\<^verbatim>\<open>company_name.replace(" ", "%20")\<close>\<close>

fun replace_space :: "string \<Rightarrow> string" where
  "replace_space [] = []"
| "replace_space (c # cs) =
     (if c = CHR '' '' then ''%20'' @ replace_space cs else c # replace_space cs)"

definition search_url :: "string \<Rightarrow> string" where
  "search_url query = ''https://query2.finance.yahoo.com/v1/finance/search?q='' @ query"

text \<open>
  What \<^verbatim>\<open>requests.get\<close> is called with. \<open>timeout\<close> is the keyword argument in seconds,
  \<open>None\<close> when the call passes none (requests then waits without bound).
\<close>

record http_request =
  url :: string
  headers :: "(string \<times> string) list"
  timeout :: "nat option"

text \<open>
  The network: \<^verbatim>\<open>requests.get\<close> raises (connection error, timeout) or returns a response,
  and \<^verbatim>\<open>r.json()\<close> on the response raises (body is not JSON) or returns the document.
\<close>

type_synonym network = "http_request \<Rightarrow> exn + (exn + json)"

text \<open>\<^verbatim>\<open>d.get(k, default)\<close> on a dict.\<close>

definition dict_get :: "(string \<times> 'v) list \<Rightarrow> string \<Rightarrow> 'v \<Rightarrow> 'v" where
  "dict_get kvs k d = (case map_of kvs k of None \<Rightarrow> d | Some v \<Rightarrow> v)"

text \<open>\<^verbatim>\<open>x.get(k, default)\<close> on any JSON value: only a dict has the method.\<close>

fun py_get :: "json \<Rightarrow> string \<Rightarrow> json \<Rightarrow> exn + json" where
  "py_get (JObj kvs) k d = Inr (dict_get kvs k d)"
| "py_get _ k d = Inl AttributeError"

text \<open>
  \<^verbatim>\<open>for item in x\<close>: a list yields its elements, a string its characters, a dict its keys;
  \<^verbatim>\<open>None\<close>, a bool and a number are not iterable.
\<close>

fun py_iter :: "json \<Rightarrow> exn + json list" where
  "py_iter (JArr xs) = Inr xs"
| "py_iter (JStr s) = Inr (map (\<lambda>c. JStr [c]) s)"
| "py_iter (JObj kvs) = Inr (map (\<lambda>kv. JStr (fst kv)) kvs)"
| "py_iter _ = Inl TypeError"

text \<open>\<^verbatim>\<open>x in ["NSI", "BSE"]\<close>\<close>

definition accepted_exchange :: "json \<Rightarrow> bool" where
  "accepted_exchange x = (x = JStr ''NSI'' \<or> x = JStr ''BSE'')"

text \<open>
  The loop over the candidates. Falling out of the loop returns \<^verbatim>\<open>None\<close>; an item that is
  not a dict raises at \<^verbatim>\<open>item.get\<close>.
\<close>

fun scan_quotes :: "json list \<Rightarrow> exn + json" where
  "scan_quotes [] = Inr JNull"
| "scan_quotes (item # rest) =
     (case py_get item ''exchange'' JNull of
        Inl e \<Rightarrow> Inl e
      | Inr ex \<Rightarrow>
          if accepted_exchange ex then py_get item ''symbol'' JNull
          else scan_quotes rest)"

text \<open>The statements of the \<^verbatim>\<open>try\<close> block after \<^verbatim>\<open>data = r.json()\<close>.\<close>

definition select_symbol :: "json \<Rightarrow> exn + json" where
  "select_symbol data =
     (case py_get data ''quotes'' (JArr []) of
        Inl e \<Rightarrow> Inl e
      | Inr quotes \<Rightarrow>
          (case py_iter quotes of
             Inl e \<Rightarrow> Inl e
           | Inr items \<Rightarrow> scan_quotes items))"

text \<open>The whole \<^verbatim>\<open>try\<close> block: the request, the parse, the scan.\<close>

definition search_body :: "network \<Rightarrow> http_request \<Rightarrow> exn + json" where
  "search_body net req =
     (case net req of
        Inl e \<Rightarrow> Inl e
      | Inr r \<Rightarrow>
          (case r of
             Inl e \<Rightarrow> Inl e
           | Inr data \<Rightarrow> select_symbol data))"

definition search_request :: "string \<Rightarrow> nat option \<Rightarrow> http_request" where
  "search_request name t =
     \<lparr>url = search_url (replace_space name),
      headers = [(''User-Agent'', ''Mozilla/5.0'')],
      timeout = t\<rparr>"

text \<open>
  \<^verbatim>\<open>get_yahoo_symbol_via_api\<close> of \<^verbatim>\<open>app.py\<close>. The result is paired with the requests
  issued. The query is built before the \<^verbatim>\<open>try\<close>: a cell that is not a string has no
  \<^verbatim>\<open>replace\<close> method, and that AttributeError leaves the function. The request carries no
  timeout.
\<close>

definition get_yahoo_symbol_via_api :: "network \<Rightarrow> pyval \<Rightarrow> (exn + json) \<times> http_request list" where
  "get_yahoo_symbol_via_api net company_name =
     (case company_name of
        PStr s \<Rightarrow>
          (let req = search_request s None
           in (case search_body net req of
                 Inl e \<Rightarrow> Inr JNull
               | Inr v \<Rightarrow> Inr v,
               [req]))
      | _ \<Rightarrow> (Inl AttributeError, []))"

text \<open>
  \<^verbatim>\<open>get_yahoo_symbol_via_api\<close> of \<^verbatim>\<open>app3.py\<close>: the same, with \<^verbatim>\<open>timeout=5\<close>, and the
  handler passes on to the final \<^verbatim>\<open>return None\<close>.
\<close>

definition get_yahoo_symbol_via_api3 :: "network \<Rightarrow> pyval \<Rightarrow> (exn + json) \<times> http_request list" where
  "get_yahoo_symbol_via_api3 net company_name =
     (case company_name of
        PStr s \<Rightarrow>
          (let req = search_request s (Some 5)
           in (case search_body net req of
                 Inl e \<Rightarrow> Inr JNull
               | Inr v \<Rightarrow> Inr v,
               [req]))
      | _ \<Rightarrow> (Inl AttributeError, []))"

section \<open>The quote fetcher\<close>

text \<open>The instant \<^verbatim>\<open>datetime.now()\<close> (or \<^verbatim>\<open>datetime.today()\<close>) reads, and its formats.\<close>

record datetime =
  year :: nat
  month :: nat
  day :: nat
  hour :: nat
  minute :: nat
  second :: nat

definition digit :: "nat \<Rightarrow> char" where
  "digit n = ''0123456789'' ! (n mod 10)"

definition pad2 :: "nat \<Rightarrow> string" where
  "pad2 n = [digit (n div 10), digit n]"

definition pad4 :: "nat \<Rightarrow> string" where
  "pad4 n = [digit (n div 1000), digit (n div 100), digit (n div 10), digit n]"

text \<open>\<^verbatim>\<open>strftime('%Y-%m-%d')\<close>\<close>

definition strftime_date :: "datetime \<Rightarrow> string" where
  "strftime_date d = pad4 (year d) @ ''-'' @ pad2 (month d) @ ''-'' @ pad2 (day d)"

text \<open>\<^verbatim>\<open>strftime("%Y-%m-%d %H:%M:%S")\<close>\<close>

definition strftime_datetime :: "datetime \<Rightarrow> string" where
  "strftime_datetime d =
     strftime_date d @ '' '' @ pad2 (hour d) @ '':'' @ pad2 (minute d) @ '':'' @ pad2 (second d)"

text \<open>One session of the historical window: the columns the programs read.\<close>

record session =
  High :: pyfloat
  Low :: pyfloat

text \<open>
  The market-data provider behind \<^verbatim>\<open>yfinance\<close>: constructing the ticker object
  (\<open>Some e\<close> when that raises), the snapshot \<^verbatim>\<open>ticker.info\<close> (a dict) and
  \<^verbatim>\<open>ticker.history(period=...)\<close> (the sessions, oldest first; empty when the frame is
  empty). Each may raise.
\<close>

record provider =
  yf_Ticker :: "pyval \<Rightarrow> exn option"
  yf_info :: "pyval \<Rightarrow> exn + (string \<times> pyval) list"
  yf_history :: "pyval \<Rightarrow> string \<Rightarrow> exn + session list"

text \<open>The requests a call makes to the provider, in order.\<close>

datatype provider_call =
    Ticker_call pyval
  | Info_call pyval
  | History_call pyval string

text \<open>The returned dict: its items in the order of the dict literal.\<close>

type_synonym quote = "(string \<times> pyval) list"

text \<open>Keys that are not plain ASCII text: the apostrophe, and the U+2011 hyphen of \<^verbatim>\<open>app3.py\<close>.\<close>

definition todays_high :: string where
  "todays_high = ''Today'' @ [CHR 0x27] @ ''s High''"

definition todays_low :: string where
  "todays_low = ''Today'' @ [CHR 0x27] @ ''s Low''"

definition week52_high3 :: string where
  "week52_high3 = ''52'' @ [CHR 0xE2, CHR 0x80, CHR 0x91] @ ''Week High''"

definition week52_low3 :: string where
  "week52_low3 = ''52'' @ [CHR 0xE2, CHR 0x80, CHR 0x91] @ ''Week Low''"

subsection \<open>\<^verbatim>\<open>app.py\<close>\<close>

text \<open>The dict of the \<^verbatim>\<open>try\<close> branch.\<close>

definition ok_record :: "datetime \<Rightarrow> pyval \<Rightarrow> pyval \<Rightarrow> (string \<times> pyval) list \<Rightarrow> session list \<Rightarrow> quote" where
  "ok_record now symbol isin info hist =
     [(''ISIN'', isin),
      (''Symbol'', symbol),
      (''Current Price'', dict_get info ''regularMarketPrice'' (PStr ''N/A'')),
      (''52 Week High'', dict_get info ''fiftyTwoWeekHigh'' (PStr ''N/A'')),
      (''52 Week Low'', dict_get info ''fiftyTwoWeekLow'' (PStr ''N/A'')),
      (todays_high, if hist \<noteq> [] then PFloat (High (last hist)) else PStr ''N/A''),
      (todays_low, if hist \<noteq> [] then PFloat (Low (last hist)) else PStr ''N/A''),
      (''Date'', PStr (strftime_date now))]"

text \<open>The dict of the \<^verbatim>\<open>except\<close> branch.\<close>

definition error_record :: "datetime \<Rightarrow> pyval \<Rightarrow> pyval \<Rightarrow> quote" where
  "error_record now symbol isin =
     [(''ISIN'', isin),
      (''Symbol'', symbol),
      (''Current Price'', PStr ''Error''),
      (''52 Week High'', PStr ''Error''),
      (''52 Week Low'', PStr ''Error''),
      (todays_high, PStr ''Error''),
      (todays_low, PStr ''Error''),
      (''Date'', PStr (strftime_date now))]"

text \<open>
  \<^verbatim>\<open>fetch_single_stock\<close> of \<^verbatim>\<open>app.py\<close>: no check of the symbol; the history period is
  \<^verbatim>\<open>1d\<close>; the session values are stored as they are. The result is paired with the
  provider calls made.
\<close>

definition fetch_single_stock :: "provider \<Rightarrow> datetime \<Rightarrow> pyval \<Rightarrow> pyval \<Rightarrow> quote \<times> provider_call list" where
  "fetch_single_stock p now symbol isin =
     (case yf_Ticker p symbol of
        Some e \<Rightarrow> (error_record now symbol isin, [Ticker_call symbol])
      | None \<Rightarrow>
          (case yf_info p symbol of
             Inl e \<Rightarrow> (error_record now symbol isin, [Ticker_call symbol, Info_call symbol])
           | Inr info \<Rightarrow>
               (case yf_history p symbol ''1d'' of
                  Inl e \<Rightarrow>
                    (error_record now symbol isin,
                     [Ticker_call symbol, Info_call symbol, History_call symbol ''1d''])
                | Inr hist \<Rightarrow>
                    (ok_record now symbol isin info hist,
                     [Ticker_call symbol, Info_call symbol, History_call symbol ''1d'']))))"

subsection \<open>\<^verbatim>\<open>app3.py\<close>\<close>

text \<open>\<^verbatim>\<open>bool(x)\<close> on a scalar: NaN is a non-zero float, hence true.\<close>

fun py_truthy :: "pyval \<Rightarrow> bool" where
  "py_truthy PNone = False"
| "py_truthy (PBool b) = b"
| "py_truthy (PInt i) = (i \<noteq> 0)"
| "py_truthy (PFloat (Fin x)) = (x \<noteq> 0)"
| "py_truthy (PFloat NaN) = True"
| "py_truthy (PStr s) = (s \<noteq> [])"

text \<open>\<^verbatim>\<open>pd.isna(x)\<close> on a scalar.\<close>

fun pd_isna :: "pyval \<Rightarrow> bool" where
  "pd_isna PNone = True"
| "pd_isna (PFloat NaN) = True"
| "pd_isna _ = False"

definition invalid_record3 :: "datetime \<Rightarrow> pyval \<Rightarrow> pyval \<Rightarrow> quote" where
  "invalid_record3 now symbol isin =
     [(''ISIN'', isin),
      (''Symbol'', symbol),
      (''Current Price'', PStr ''Invalid Symbol''),
      (week52_high3, PStr ''Invalid''),
      (week52_low3, PStr ''Invalid''),
      (todays_high, PStr ''Invalid''),
      (todays_low, PStr ''Invalid''),
      (''Scraped At'', PStr (strftime_datetime now))]"

text \<open>
  The dict of the \<^verbatim>\<open>try\<close> branch. \<open>round2\<close> is Python's \<^verbatim>\<open>round(x, 2)\<close> on a float, a
  function of the language and not of this repository: it is a parameter.
\<close>

definition ok_record3 ::
  "(pyfloat \<Rightarrow> pyfloat) \<Rightarrow> datetime \<Rightarrow> pyval \<Rightarrow> pyval \<Rightarrow> (string \<times> pyval) list \<Rightarrow> session list \<Rightarrow> quote" where
  "ok_record3 round2 now symbol isin info hist =
     (let default = PStr ''N/A'';
          high = (if hist = [] then default else PFloat (round2 (High (last hist))));
          low = (if hist = [] then default else PFloat (round2 (Low (last hist))))
      in [(''ISIN'', isin),
          (''Symbol'', symbol),
          (''Current Price'', dict_get info ''regularMarketPrice'' default),
          (week52_high3, dict_get info ''fiftyTwoWeekHigh'' default),
          (week52_low3, dict_get info ''fiftyTwoWeekLow'' default),
          (todays_high, high),
          (todays_low, low),
          (''Scraped At'', PStr (strftime_datetime now))])"

definition error_record3 :: "datetime \<Rightarrow> pyval \<Rightarrow> pyval \<Rightarrow> quote" where
  "error_record3 now symbol isin =
     [(''ISIN'', isin),
      (''Symbol'', symbol),
      (''Current Price'', PStr ''Error''),
      (week52_high3, PStr ''Error''),
      (week52_low3, PStr ''Error''),
      (todays_high, PStr ''Error''),
      (todays_low, PStr ''Error''),
      (''Scraped At'', PStr (strftime_datetime now))]"

text \<open>
  \<^verbatim>\<open>fetch_single_stock\<close> of \<^verbatim>\<open>app3.py\<close>: the guard \<^verbatim>\<open>not symbol or pd.isna(symbol)\<close>
  comes first, before any provider call; the history period is \<^verbatim>\<open>2d\<close>.
\<close>

definition fetch_single_stock3 ::
  "provider \<Rightarrow> (pyfloat \<Rightarrow> pyfloat) \<Rightarrow> datetime \<Rightarrow> pyval \<Rightarrow> pyval \<Rightarrow> quote \<times> provider_call list" where
  "fetch_single_stock3 p round2 now symbol isin =
     (if \<not> py_truthy symbol \<or> pd_isna symbol then (invalid_record3 now symbol isin, [])
      else
        (case yf_Ticker p symbol of
           Some e \<Rightarrow> (error_record3 now symbol isin, [Ticker_call symbol])
         | None \<Rightarrow>
             (case yf_info p symbol of
                Inl e \<Rightarrow> (error_record3 now symbol isin, [Ticker_call symbol, Info_call symbol])
              | Inr info \<Rightarrow>
                  (case yf_history p symbol ''2d'' of
                     Inl e \<Rightarrow>
                       (error_record3 now symbol isin,
                        [Ticker_call symbol, Info_call symbol, History_call symbol ''2d''])
                   | Inr hist \<Rightarrow>
                       (ok_record3 round2 now symbol isin info hist,
                        [Ticker_call symbol, Info_call symbol, History_call symbol ''2d''])))))"

section \<open>The parallel symbol mapping\<close>

text \<open>
  A row of the company table, and the table as \<^verbatim>\<open>df.iterrows()\<close> yields it: pairs of index
  label and row. The caller stores the table only when it has the column
  \<^verbatim>\<open>COMPANYNAME\<close>, so every row has that cell.
\<close>

record company_row =
  COMPANYNAME :: pyval

type_synonym dataframe = "(int \<times> company_row) list"

text \<open>
  \<^verbatim>\<open>xs[i] = v\<close> on a Python list: a negative index counts from the end, an index out of
  range raises IndexError.
\<close>

definition list_setitem :: "'a list \<Rightarrow> int \<Rightarrow> 'a \<Rightarrow> exn + 'a list" where
  "list_setitem xs i v =
     (let n = int (length xs); j = (if i < 0 then n + i else i)
      in if 0 \<le> j \<and> j < n then Inr (xs[nat j := v]) else Inl IndexError)"

text \<open>
  An entry of the dict \<^verbatim>\<open>futures\<close>: the future, given by the outcome its task ends with,
  and the index label it was submitted under.
\<close>

type_synonym future = "(exn + json) \<times> int"

text \<open>
  The loop over \<^verbatim>\<open>as_completed(futures)\<close>, on the futures in completion order. The
  assignment is inside the \<^verbatim>\<open>try\<close>; the handler assigns \<^verbatim>\<open>None\<close> to the same slot, so an
  IndexError of the assignment is raised again by the handler and leaves the function.
\<close>

fun collect_results :: "future list \<Rightarrow> json list \<Rightarrow> exn + json list" where
  "collect_results [] results = Inr results"
| "collect_results ((outcome, idx) # rest) results =
     (case (case outcome of Inl e \<Rightarrow> Inl e | Inr v \<Rightarrow> list_setitem results idx v) of
        Inr results' \<Rightarrow> collect_results rest results'
      | Inl e \<Rightarrow>
          (case list_setitem results idx JNull of
             Inl e' \<Rightarrow> Inl e'
           | Inr results' \<Rightarrow> collect_results rest results'))"

text \<open>
  The body both programs share. \<open>worker\<close> is the submitted task on the row's company name,
  \<open>as_completed\<close> the order in which the pool completes the futures, \<open>max_threads\<close> the
  pool size (ThreadPoolExecutor raises ValueError unless it is positive).
\<close>

definition pool_map ::
  "(pyval \<Rightarrow> exn + json) \<Rightarrow> (future list \<Rightarrow> future list) \<Rightarrow> dataframe \<Rightarrow> int \<Rightarrow> exn + json list" where
  "pool_map worker as_completed df max_threads =
     (let results = replicate (length df) JNull
      in if max_threads \<le> 0 then Inl ValueError
         else
           (let futures = map (\<lambda>r. (worker (COMPANYNAME (snd r)), fst r)) df
            in collect_results (as_completed futures) results))"

definition fetch_yahoo_tickers_parallel ::
  "network \<Rightarrow> (future list \<Rightarrow> future list) \<Rightarrow> dataframe \<Rightarrow> int \<Rightarrow> exn + json list" where
  "fetch_yahoo_tickers_parallel net as_completed df max_threads =
     pool_map (\<lambda>name. fst (get_yahoo_symbol_via_api net name)) as_completed df max_threads"

definition fetch_yahoo_tickers_parallel3 ::
  "network \<Rightarrow> (future list \<Rightarrow> future list) \<Rightarrow> dataframe \<Rightarrow> int \<Rightarrow> exn + json list" where
  "fetch_yahoo_tickers_parallel3 net as_completed df max_threads =
     pool_map (\<lambda>name. fst (get_yahoo_symbol_via_api3 net name)) as_completed df max_threads"

text \<open>What the loop stores for a future: its result, or \<^verbatim>\<open>None\<close> when it raised.\<close>

fun stored :: "exn + json \<Rightarrow> json" where
  "stored (Inl e) = JNull"
| "stored (Inr v) = v"

definition store :: "future \<Rightarrow> json list \<Rightarrow> json list" where
  "store f results = results[nat (snd f) := stored (fst f)]"

section \<open>Example inputs\<close>

definition nyq_candidate :: "(string \<times> json) list" where
  "nyq_candidate = [(''exchange'', JStr ''NYQ''), (''symbol'', JStr ''EXMP'')]"

definition nsi_candidate :: "(string \<times> json) list" where
  "nsi_candidate = [(''exchange'', JStr ''NSI''), (''symbol'', JStr ''EXMP.NS'')]"

definition bse_candidate :: "(string \<times> json) list" where
  "bse_candidate = [(''exchange'', JStr ''BSE''), (''symbol'', JStr ''EXMP.BO'')]"

definition example_network :: network where
  "example_network req =
     (if url req = search_url ''Example%20Corp''
      then Inr (Inr (JObj [(''quotes'',
             JArr ([JObj nyq_candidate] @ JObj nsi_candidate # [JObj bse_candidate, JStr ''garbage'']))]))
      else if url req = search_url ''Foreign%20Inc''
      then Inr (Inr (JObj [(''quotes'', JArr [JObj nyq_candidate])]))
      else if url req = search_url ''Garbled''
      then Inr (Inl JSONDecodeError)
      else Inl RequestException)"

definition example_df :: dataframe where
  "example_df =
     [(0, \<lparr>COMPANYNAME = PStr ''Example Corp''\<rparr>),
      (1, \<lparr>COMPANYNAME = PFloat NaN\<rparr>),
      (2, \<lparr>COMPANYNAME = PStr ''Foreign Inc''\<rparr>)]"

definition example_info :: "(string \<times> pyval) list" where
  "example_info = [(''regularMarketPrice'', PFloat (Fin (201 / 2))), (''fiftyTwoWeekLow'', PInt 80)]"

definition example_session :: session where
  "example_session = \<lparr>High = Fin (101256 / 1000), Low = Fin (99504 / 1000)\<rparr>"

definition example_provider :: provider where
  "example_provider =
     \<lparr>yf_Ticker = (\<lambda>s. case s of PStr n \<Rightarrow> None | _ \<Rightarrow> Some AttributeError),
      yf_info = (\<lambda>s. if s = PStr ''EXMP.NS'' \<or> s = PStr ''QUIET.NS'' then Inr example_info
                      else Inl ProviderError),
      yf_history = (\<lambda>s period. if s = PStr ''EXMP.NS'' then Inr [example_session] else Inr [])\<rparr>"

definition example_now :: datetime where
  "example_now = \<lparr>year = 2025, month = 7, day = 4, hour = 9, minute = 5, second = 3\<rparr>"

text \<open>Rounding to two decimals on exact values, ties to even: an instance of \<open>round2\<close>.\<close>

definition round_half_even :: "rat \<Rightarrow> int" where
  "round_half_even x =
     (let f = \<lfloor>x\<rfloor>; d = x - of_int f
      in if d < 1 / 2 then f else if 1 / 2 < d then f + 1 else if even f then f else f + 1)"

fun decimal_round2 :: "pyfloat \<Rightarrow> pyfloat" where
  "decimal_round2 (Fin x) = Fin (of_int (round_half_even (x * 100)) / 100)"
| "decimal_round2 NaN = NaN"

section \<open>Properties of the symbol resolver\<close>

lemmas key_defs = todays_high_def todays_low_def week52_high3_def week52_low3_def

lemma api_result:
  "fst (get_yahoo_symbol_via_api net (PStr name)) =
     Inr (case search_body net (search_request name None) of Inl e \<Rightarrow> JNull | Inr v \<Rightarrow> v)"
  by (simp add: get_yahoo_symbol_via_api_def Let_def split: sum.splits)

lemma api3_result:
  "fst (get_yahoo_symbol_via_api3 net (PStr name)) =
     Inr (case search_body net (search_request name (Some 5)) of Inl e \<Rightarrow> JNull | Inr v \<Rightarrow> v)"
  by (simp add: get_yahoo_symbol_via_api3_def Let_def split: sum.splits)



lemma search_body_document: "net rq = Inr (Inr data) \<Longrightarrow> search_body net rq = select_symbol data"
  by (simp add: search_body_def)

lemma select_symbol_quotes:
  "map_of doc ''quotes'' = Some (JArr items) \<Longrightarrow> select_symbol (JObj doc) = scan_quotes items"
  by (simp add: select_symbol_def dict_get_def)

lemma scan_quotes_first_accepted:
  assumes "\<forall>p\<in>set pre. \<exists>kv. p = JObj kv \<and> \<not> accepted_exchange (dict_get kv ''exchange'' JNull)"
    and "accepted_exchange (dict_get c ''exchange'' JNull)"
  shows "scan_quotes (pre @ JObj c # post) = Inr (dict_get c ''symbol'' JNull)"
  using assms by (induction pre) auto


lemma example_network_example:
  "example_network (search_request ''Example Corp'' t) =
     Inr (Inr (JObj [(''quotes'',
       JArr ([JObj nyq_candidate] @ JObj nsi_candidate # [JObj bse_candidate, JStr ''garbage'']))]))"
  by (simp add: example_network_def search_request_def search_url_def)

lemma example_network_foreign:
  "example_network (search_request ''Foreign Inc'' t) =
     Inr (Inr (JObj [(''quotes'', JArr [JObj nyq_candidate])]))"
  by (simp add: example_network_def search_request_def search_url_def)



text \<open>
  C4. When the response is a document whose \<^verbatim>\<open>quotes\<close> list holds candidates (dicts), the
  resolver of either program returns the \<^verbatim>\<open>symbol\<close> entry of the first candidate, in
  response order, whose \<^verbatim>\<open>exchange\<close> is \<^verbatim>\<open>NSI\<close> or \<^verbatim>\<open>BSE\<close>. Nothing but the position
  decides, and what follows that candidate (\<open>post\<close>, arbitrary) is never looked at.
\<close>

theorem first_accepted_candidate_wins:
  assumes "net (search_request name None) = Inr (Inr (JObj doc))"
    and "net (search_request name (Some 5)) = Inr (Inr (JObj doc))"
    and "map_of doc ''quotes'' = Some (JArr (pre @ JObj c # post))"
    and "\<forall>p\<in>set pre. \<exists>kv. p = JObj kv \<and> \<not> accepted_exchange (dict_get kv ''exchange'' JNull)"
    and "accepted_exchange (dict_get c ''exchange'' JNull)"
  shows "fst (get_yahoo_symbol_via_api net (PStr name)) = Inr (dict_get c ''symbol'' JNull)
       \<and> fst (get_yahoo_symbol_via_api3 net (PStr name)) = Inr (dict_get c ''symbol'' JNull)"
proof -
  have scan: "select_symbol (JObj doc) = Inr (dict_get c ''symbol'' JNull)"
    using select_symbol_quotes [OF assms(3)] scan_quotes_first_accepted [OF assms(4) assms(5)]
    by simp
  have "search_body net (search_request name None) = Inr (dict_get c ''symbol'' JNull)"
    using assms(1) scan by (simp add: search_body_def)
  moreover have "search_body net (search_request name (Some 5)) = Inr (dict_get c ''symbol'' JNull)"
    using assms(2) scan by (simp add: search_body_def)
  ultimately show ?thesis
    by (simp add: api_result api3_result)
qed

theorem first_accepted_candidate_wins_witness:
  "example_network (search_request ''Example Corp'' None) =
     Inr (Inr (JObj [(''quotes'',
       JArr ([JObj nyq_candidate] @ JObj nsi_candidate # [JObj bse_candidate, JStr ''garbage'']))]))
   \<and> accepted_exchange (dict_get nsi_candidate ''exchange'' JNull)
   \<and> fst (get_yahoo_symbol_via_api example_network (PStr ''Example Corp'')) = Inr (JStr ''EXMP.NS'')
   \<and> fst (get_yahoo_symbol_via_api3 example_network (PStr ''Example Corp'')) = Inr (JStr ''EXMP.NS'')"
proof -
  have h1: "example_network (search_request ''Example Corp'' None) =
     Inr (Inr (JObj [(''quotes'',
       JArr ([JObj nyq_candidate] @ JObj nsi_candidate # [JObj bse_candidate, JStr ''garbage'']))]))"
    by (rule example_network_example)
  have h2: "example_network (search_request ''Example Corp'' (Some 5)) =
     Inr (Inr (JObj [(''quotes'',
       JArr ([JObj nyq_candidate] @ JObj nsi_candidate # [JObj bse_candidate, JStr ''garbage'']))]))"
    by (rule example_network_example)
  have h3: "map_of [(''quotes'',
       JArr ([JObj nyq_candidate] @ JObj nsi_candidate # [JObj bse_candidate, JStr ''garbage'']))] ''quotes''
     = Some (JArr ([JObj nyq_candidate] @ JObj nsi_candidate # [JObj bse_candidate, JStr ''garbage'']))"
    by simp
  have h4: "\<forall>p\<in>set [JObj nyq_candidate].
      \<exists>kv. p = JObj kv \<and> \<not> accepted_exchange (dict_get kv ''exchange'' JNull)"
    by (simp add: nyq_candidate_def dict_get_def accepted_exchange_def)
  have h5: "accepted_exchange (dict_get nsi_candidate ''exchange'' JNull)"
    by (simp add: nsi_candidate_def dict_get_def accepted_exchange_def)
  have sym: "dict_get nsi_candidate ''symbol'' JNull = JStr ''EXMP.NS''"
    by (simp add: nsi_candidate_def dict_get_def)
  show ?thesis
    using first_accepted_candidate_wins [OF h1 h2 h3 h4 h5] h1 h5 sym by simp
qed




lemma api3_timeout:
  "map timeout (snd (get_yahoo_symbol_via_api3 net (PStr name))) = [Some 5]"
  by (simp add: get_yahoo_symbol_via_api3_def Let_def search_request_def)

text \<open>
  C9. The resolver of \<^verbatim>\<open>app.py\<close>, called on the company name \<^verbatim>\<open>Example Corp\<close>, issues its
  one request with no timeout at all, whatever the network answers; the resolver of
  \<^verbatim>\<open>app3.py\<close> issues the same request with a timeout of 5 seconds.
\<close>

theorem resolver_request_without_timeout:
  "map timeout (snd (get_yahoo_symbol_via_api net (PStr ''Example Corp''))) = [None]
   \<and> map timeout (snd (get_yahoo_symbol_via_api3 net (PStr ''Example Corp''))) = [Some 5]"
  by (simp add: get_yahoo_symbol_via_api_def get_yahoo_symbol_via_api3_def Let_def
      search_request_def)

section \<open>Properties of the quote fetcher\<close>

lemma fetch_single_stock_ok:
  assumes "yf_Ticker p symbol = None" and "yf_info p symbol = Inr info"
    and "yf_history p symbol ''1d'' = Inr hist"
  shows "fetch_single_stock p now symbol isin =
     (ok_record now symbol isin info hist,
      [Ticker_call symbol, Info_call symbol, History_call symbol ''1d''])"
  using assms by (simp add: fetch_single_stock_def)

lemma fetch_single_stock3_ok:
  assumes "py_truthy symbol" and "\<not> pd_isna symbol"
    and "yf_Ticker p symbol = None" and "yf_info p symbol = Inr info"
    and "yf_history p symbol ''2d'' = Inr hist"
  shows "fetch_single_stock3 p round2 now symbol isin =
     (ok_record3 round2 now symbol isin info hist,
      [Ticker_call symbol, Info_call symbol, History_call symbol ''2d''])"
  using assms by (simp add: fetch_single_stock3_def)

lemma fetch_single_stock_cases:
  "fst (fetch_single_stock p now symbol isin) = error_record now symbol isin
   \<or> (\<exists>info hist. fst (fetch_single_stock p now symbol isin) = ok_record now symbol isin info hist)"
  by (auto simp add: fetch_single_stock_def split: option.splits sum.splits)

lemma fetch_single_stock3_cases:
  "fst (fetch_single_stock3 p round2 now symbol isin) = invalid_record3 now symbol isin
   \<or> fst (fetch_single_stock3 p round2 now symbol isin) = error_record3 now symbol isin
   \<or> (\<exists>info hist.
        fst (fetch_single_stock3 p round2 now symbol isin) = ok_record3 round2 now symbol isin info hist)"
  by (auto simp add: fetch_single_stock3_def split: option.splits sum.splits)

lemma guard_values:
  "(\<not> py_truthy symbol \<or> pd_isna symbol) =
     (symbol \<in> {PNone, PStr [], PFloat NaN, PInt 0, PFloat (Fin 0), PBool False})"
proof (cases symbol)
  case (PFloat x)
  then show ?thesis by (cases x) auto
qed auto

lemma example_provider_exmp:
  "yf_Ticker example_provider (PStr ''EXMP.NS'') = None"
  "yf_info example_provider (PStr ''EXMP.NS'') = Inr example_info"
  "yf_history example_provider (PStr ''EXMP.NS'') period = Inr [example_session]"
  by (simp_all add: example_provider_def)

lemma example_provider_quiet:
  "yf_Ticker example_provider (PStr ''QUIET.NS'') = None"
  "yf_info example_provider (PStr ''QUIET.NS'') = Inr example_info"
  "yf_history example_provider (PStr ''QUIET.NS'') period = Inr []"
  by (simp_all add: example_provider_def)

text \<open>
  C1 (amended). In \<^verbatim>\<open>app3.py\<close>, a call whose symbol is \<^verbatim>\<open>None\<close>, the empty string, NaN, or
  another false scalar (0, 0.0, False) returns at once: the record has the ISIN and symbol
  passed in, \<^verbatim>\<open>Invalid Symbol\<close> as current price and \<^verbatim>\<open>Invalid\<close> in the four other metric
  fields, and no call to the provider was made.
\<close>

theorem invalid_symbol_short_circuit:
  assumes "symbol \<in> {PNone, PStr [], PFloat NaN, PInt 0, PFloat (Fin 0), PBool False}"
  shows "snd (fetch_single_stock3 p round2 now symbol isin) = []
       \<and> map_of (fst (fetch_single_stock3 p round2 now symbol isin)) ''ISIN'' = Some isin
       \<and> map_of (fst (fetch_single_stock3 p round2 now symbol isin)) ''Symbol'' = Some symbol
       \<and> map_of (fst (fetch_single_stock3 p round2 now symbol isin)) ''Current Price''
           = Some (PStr ''Invalid Symbol'')
       \<and> map_of (fst (fetch_single_stock3 p round2 now symbol isin)) week52_high3
           = Some (PStr ''Invalid'')
       \<and> map_of (fst (fetch_single_stock3 p round2 now symbol isin)) week52_low3
           = Some (PStr ''Invalid'')
       \<and> map_of (fst (fetch_single_stock3 p round2 now symbol isin)) todays_high
           = Some (PStr ''Invalid'')
       \<and> map_of (fst (fetch_single_stock3 p round2 now symbol isin)) todays_low
           = Some (PStr ''Invalid'')"
proof -
  have "\<not> py_truthy symbol \<or> pd_isna symbol"
    using assms by (simp only: guard_values)
  then have "fetch_single_stock3 p round2 now symbol isin = (invalid_record3 now symbol isin, [])"
    by (simp add: fetch_single_stock3_def)
  then show ?thesis
    by (simp add: invalid_record3_def key_defs)
qed

theorem invalid_symbol_short_circuit_witness:
  "PStr [] \<in> {PNone, PStr [], PFloat NaN, PInt 0, PFloat (Fin 0), PBool False}
   \<and> snd (fetch_single_stock3 example_provider decimal_round2 example_now (PStr []) (PStr ''INE000A01001'')) = []
   \<and> map_of (fst (fetch_single_stock3 example_provider decimal_round2 example_now (PStr [])
        (PStr ''INE000A01001''))) ''Current Price'' = Some (PStr ''Invalid Symbol'')
   \<and> map_of (fst (fetch_single_stock3 example_provider decimal_round2 example_now (PStr [])
        (PStr ''INE000A01001''))) todays_high = Some (PStr ''Invalid'')"
proof -
  have h: "PStr [] \<in> {PNone, PStr [], PFloat NaN, PInt 0, PFloat (Fin 0), PBool False}"
    by simp
  show ?thesis
    using h invalid_symbol_short_circuit [OF h, of example_provider decimal_round2 example_now
        "PStr ''INE000A01001''"]
    by blast
qed

theorem truthy_non_string_symbol_counterexample:
  "map_of (fst (fetch_single_stock3 example_provider decimal_round2 example_now (PInt 5)
        (PStr ''INE000A01001''))) ''Current Price'' = Some (PStr ''Error'')
   \<and> map_of (fst (fetch_single_stock3 example_provider decimal_round2 example_now (PInt 5)
        (PStr ''INE000A01001''))) ''Current Price'' \<noteq> Some (PStr ''Invalid Symbol'')
   \<and> map_of (fst (fetch_single_stock3 example_provider decimal_round2 example_now (PInt 5)
        (PStr ''INE000A01001''))) todays_high \<noteq> Some (PStr ''Invalid'')
   \<and> snd (fetch_single_stock3 example_provider decimal_round2 example_now (PInt 5)
        (PStr ''INE000A01001'')) = [Ticker_call (PInt 5)]"
  by (simp add: fetch_single_stock3_def example_provider_def error_record3_def key_defs)

lemma fetch_single_stock3_rounds:
  assumes "py_truthy symbol" and "\<not> pd_isna symbol"
    and "yf_Ticker p symbol = None" and "yf_info p symbol = Inr info"
    and "yf_history p symbol ''2d'' = Inr hist" and "hist \<noteq> []"
  shows "map_of (fst (fetch_single_stock3 p round2 now symbol isin)) todays_high
           = Some (PFloat (round2 (High (last hist))))
       \<and> map_of (fst (fetch_single_stock3 p round2 now symbol isin)) todays_low
           = Some (PFloat (round2 (Low (last hist))))"
  using assms(6)
  by (simp add: fetch_single_stock3_ok [OF assms(1-5)] ok_record3_def Let_def key_defs)

lemma decimal_round2_example:
  "decimal_round2 (Fin (101256 / 1000)) = Fin (10126 / 100)"
  by code_simp

text \<open>
  C6. \<^verbatim>\<open>app.py\<close> at a history whose latest session has High 101.256 and Low 99.504: the
  record carries these two values as they are, not 101.26 and 99.50, although the history
  is not empty.
\<close>

theorem todays_high_low_not_rounded:
  "map_of (fst (fetch_single_stock example_provider example_now (PStr ''EXMP.NS'')
        (PStr ''INE000A01001''))) todays_high = Some (PFloat (Fin (101256 / 1000)))
   \<and> map_of (fst (fetch_single_stock example_provider example_now (PStr ''EXMP.NS'')
        (PStr ''INE000A01001''))) todays_low = Some (PFloat (Fin (99504 / 1000)))
   \<and> Fin (101256 / 1000) \<noteq> Fin (10126 / 100)
   \<and> Fin (99504 / 1000) \<noteq> Fin (9950 / 100)"
  by (simp add: fetch_single_stock_ok [OF example_provider_exmp] ok_record_def key_defs
      example_session_def)

text \<open>
  C7. When the provider answers the snapshot and returns an empty history, the record of
  either program has \<^verbatim>\<open>N/A\<close> as today's high and as today's low, and it is not the record
  of the error branch (nor, in \<^verbatim>\<open>app3.py\<close>, that of the invalid-symbol branch).
\<close>

theorem empty_history_degrades:
  assumes "py_truthy symbol" and "\<not> pd_isna symbol"
    and "yf_Ticker p symbol = None" and "yf_info p symbol = Inr info"
    and "yf_history p symbol ''1d'' = Inr []" and "yf_history p symbol ''2d'' = Inr []"
  shows "map_of (fst (fetch_single_stock p now symbol isin)) todays_high = Some (PStr ''N/A'')
       \<and> map_of (fst (fetch_single_stock p now symbol isin)) todays_low = Some (PStr ''N/A'')
       \<and> fst (fetch_single_stock p now symbol isin) \<noteq> error_record now symbol isin
       \<and> map_of (fst (fetch_single_stock3 p round2 now symbol isin)) todays_high = Some (PStr ''N/A'')
       \<and> map_of (fst (fetch_single_stock3 p round2 now symbol isin)) todays_low = Some (PStr ''N/A'')
       \<and> fst (fetch_single_stock3 p round2 now symbol isin) \<noteq> error_record3 now symbol isin
       \<and> fst (fetch_single_stock3 p round2 now symbol isin) \<noteq> invalid_record3 now symbol isin"
proof -
  have r: "fst (fetch_single_stock p now symbol isin) = ok_record now symbol isin info []"
    by (simp add: fetch_single_stock_ok [OF assms(3) assms(4) assms(5)])
  have r3: "fst (fetch_single_stock3 p round2 now symbol isin) = ok_record3 round2 now symbol isin info []"
    by (simp add: fetch_single_stock3_ok [OF assms(1) assms(2) assms(3) assms(4) assms(6)])
  have a: "map_of (ok_record now symbol isin info []) todays_high = Some (PStr ''N/A'')"
    by (simp add: ok_record_def key_defs)
  have b: "map_of (ok_record now symbol isin info []) todays_low = Some (PStr ''N/A'')"
    by (simp add: ok_record_def key_defs)
  have c: "ok_record now symbol isin info [] \<noteq> error_record now symbol isin"
    by (simp add: ok_record_def error_record_def key_defs)
  have a3: "map_of (ok_record3 round2 now symbol isin info []) todays_high = Some (PStr ''N/A'')"
    by (simp add: ok_record3_def Let_def key_defs)
  have b3: "map_of (ok_record3 round2 now symbol isin info []) todays_low = Some (PStr ''N/A'')"
    by (simp add: ok_record3_def Let_def key_defs)
  have c3: "ok_record3 round2 now symbol isin info [] \<noteq> error_record3 now symbol isin"
    by (simp add: ok_record3_def Let_def error_record3_def key_defs)
  have d3: "ok_record3 round2 now symbol isin info [] \<noteq> invalid_record3 now symbol isin"
    by (simp add: ok_record3_def Let_def invalid_record3_def key_defs)
  show ?thesis
    using a b c a3 b3 c3 d3 by (simp only: r r3 simp_thms)
qed

theorem empty_history_degrades_witness:
  "py_truthy (PStr ''QUIET.NS'') \<and> \<not> pd_isna (PStr ''QUIET.NS'')
   \<and> yf_Ticker example_provider (PStr ''QUIET.NS'') = None
   \<and> yf_info example_provider (PStr ''QUIET.NS'') = Inr example_info
   \<and> yf_history example_provider (PStr ''QUIET.NS'') ''1d'' = Inr []
   \<and> yf_history example_provider (PStr ''QUIET.NS'') ''2d'' = Inr []
   \<and> map_of (fst (fetch_single_stock example_provider example_now (PStr ''QUIET.NS'')
        (PStr ''INE000A01002''))) todays_high = Some (PStr ''N/A'')
   \<and> map_of (fst (fetch_single_stock3 example_provider decimal_round2 example_now (PStr ''QUIET.NS'')
        (PStr ''INE000A01002''))) todays_low = Some (PStr ''N/A'')
   \<and> fst (fetch_single_stock3 example_provider decimal_round2 example_now (PStr ''QUIET.NS'')
        (PStr ''INE000A01002'')) \<noteq> error_record3 example_now (PStr ''QUIET.NS'') (PStr ''INE000A01002'')"
proof -
  have h1: "py_truthy (PStr ''QUIET.NS'')" by simp
  have h2: "\<not> pd_isna (PStr ''QUIET.NS'')" by simp
  note h3 = example_provider_quiet(1)
  note h4 = example_provider_quiet(2)
  note h5 = example_provider_quiet(3) [of "''1d''"]
  note h6 = example_provider_quiet(3) [of "''2d''"]
  show ?thesis
    using h1 h2 h3 h4 h5 h6
      empty_history_degrades [OF h1 h2 h3 h4 h5 h6, of example_now "PStr ''INE000A01002''" decimal_round2]
    by blast
qed

text \<open>
  C8. When the provider answers both the snapshot and the history, each of the three
  snapshot fields of the record is, on its own, the value the snapshot has under
  \<^verbatim>\<open>regularMarketPrice\<close>, \<^verbatim>\<open>fiftyTwoWeekHigh\<close>, \<^verbatim>\<open>fiftyTwoWeekLow\<close>, or \<^verbatim>\<open>N/A\<close> when the
  snapshot has no such key; this holds in both programs, and the record is not the error
  record.
\<close>

theorem snapshot_fields_degrade_independently:
  assumes "py_truthy symbol" and "\<not> pd_isna symbol"
    and "yf_Ticker p symbol = None" and "yf_info p symbol = Inr info"
    and "yf_history p symbol ''1d'' = Inr hist1" and "yf_history p symbol ''2d'' = Inr hist2"
  shows "map_of (fst (fetch_single_stock p now symbol isin)) ''Current Price''
           = Some (case map_of info ''regularMarketPrice'' of None \<Rightarrow> PStr ''N/A'' | Some v \<Rightarrow> v)
       \<and> map_of (fst (fetch_single_stock p now symbol isin)) ''52 Week High''
           = Some (case map_of info ''fiftyTwoWeekHigh'' of None \<Rightarrow> PStr ''N/A'' | Some v \<Rightarrow> v)
       \<and> map_of (fst (fetch_single_stock p now symbol isin)) ''52 Week Low''
           = Some (case map_of info ''fiftyTwoWeekLow'' of None \<Rightarrow> PStr ''N/A'' | Some v \<Rightarrow> v)
       \<and> map_of (fst (fetch_single_stock3 p round2 now symbol isin)) ''Current Price''
           = Some (case map_of info ''regularMarketPrice'' of None \<Rightarrow> PStr ''N/A'' | Some v \<Rightarrow> v)
       \<and> map_of (fst (fetch_single_stock3 p round2 now symbol isin)) week52_high3
           = Some (case map_of info ''fiftyTwoWeekHigh'' of None \<Rightarrow> PStr ''N/A'' | Some v \<Rightarrow> v)
       \<and> map_of (fst (fetch_single_stock3 p round2 now symbol isin)) week52_low3
           = Some (case map_of info ''fiftyTwoWeekLow'' of None \<Rightarrow> PStr ''N/A'' | Some v \<Rightarrow> v)"
proof -
  have r: "fst (fetch_single_stock p now symbol isin) = ok_record now symbol isin info hist1"
    by (simp add: fetch_single_stock_ok [OF assms(3) assms(4) assms(5)])
  have r3: "fst (fetch_single_stock3 p round2 now symbol isin) = ok_record3 round2 now symbol isin info hist2"
    by (simp add: fetch_single_stock3_ok [OF assms(1) assms(2) assms(3) assms(4) assms(6)])
  show ?thesis
    unfolding r r3
    by (simp add: ok_record_def ok_record3_def Let_def dict_get_def key_defs)
qed

theorem snapshot_fields_degrade_independently_witness:
  "py_truthy (PStr ''EXMP.NS'') \<and> \<not> pd_isna (PStr ''EXMP.NS'')
   \<and> yf_Ticker example_provider (PStr ''EXMP.NS'') = None
   \<and> yf_info example_provider (PStr ''EXMP.NS'') = Inr example_info
   \<and> yf_history example_provider (PStr ''EXMP.NS'') ''1d'' = Inr [example_session]
   \<and> yf_history example_provider (PStr ''EXMP.NS'') ''2d'' = Inr [example_session]
   \<and> map_of (fst (fetch_single_stock example_provider example_now (PStr ''EXMP.NS'')
        (PStr ''INE000A01001''))) ''Current Price'' = Some (PFloat (Fin (201 / 2)))
   \<and> map_of (fst (fetch_single_stock example_provider example_now (PStr ''EXMP.NS'')
        (PStr ''INE000A01001''))) ''52 Week High'' = Some (PStr ''N/A'')
   \<and> map_of (fst (fetch_single_stock3 example_provider decimal_round2 example_now (PStr ''EXMP.NS'')
        (PStr ''INE000A01001''))) week52_high3 = Some (PStr ''N/A'')
   \<and> map_of (fst (fetch_single_stock3 example_provider decimal_round2 example_now (PStr ''EXMP.NS'')
        (PStr ''INE000A01001''))) week52_low3 = Some (PInt 80)"
proof -
  have h1: "py_truthy (PStr ''EXMP.NS'')" by simp
  have h2: "\<not> pd_isna (PStr ''EXMP.NS'')" by simp
  note h3 = example_provider_exmp(1)
  note h4 = example_provider_exmp(2)
  note h5 = example_provider_exmp(3) [of "''1d''"]
  note h6 = example_provider_exmp(3) [of "''2d''"]
  have i1: "map_of example_info ''regularMarketPrice'' = Some (PFloat (Fin (201 / 2)))"
    by (simp add: example_info_def)
  have i2: "map_of example_info ''fiftyTwoWeekHigh'' = None"
    by (simp add: example_info_def)
  have i3: "map_of example_info ''fiftyTwoWeekLow'' = Some (PInt 80)"
    by (simp add: example_info_def)
  show ?thesis
    using h1 h2 h3 h4 h5 h6
      snapshot_fields_degrade_independently [OF h1 h2 h3 h4 h5 h6, of example_now
        "PStr ''INE000A01001''" decimal_round2]
    by (simp only: i1 i2 i3 option.case simp_thms)
qed

lemma record_keys:
  "map fst (error_record now symbol isin) =
     [''ISIN'', ''Symbol'', ''Current Price'', ''52 Week High'', ''52 Week Low'',
      todays_high, todays_low, ''Date'']"
  "map fst (ok_record now symbol isin info hist) =
     [''ISIN'', ''Symbol'', ''Current Price'', ''52 Week High'', ''52 Week Low'',
      todays_high, todays_low, ''Date'']"
  by (simp_all add: error_record_def ok_record_def)

lemma record3_keys:
  "map fst (invalid_record3 now symbol isin) =
     [''ISIN'', ''Symbol'', ''Current Price'', week52_high3, week52_low3,
      todays_high, todays_low, ''Scraped At'']"
  "map fst (error_record3 now symbol isin) =
     [''ISIN'', ''Symbol'', ''Current Price'', week52_high3, week52_low3,
      todays_high, todays_low, ''Scraped At'']"
  "map fst (ok_record3 round2 now symbol isin info hist) =
     [''ISIN'', ''Symbol'', ''Current Price'', week52_high3, week52_low3,
      todays_high, todays_low, ''Scraped At'']"
  by (simp_all add: invalid_record3_def error_record3_def ok_record3_def Let_def)

lemma record_identity:
  "map_of (error_record now symbol isin) ''ISIN'' = Some isin"
  "map_of (error_record now symbol isin) ''Symbol'' = Some symbol"
  "map_of (error_record now symbol isin) ''Date'' = Some (PStr (strftime_date now))"
  "map_of (ok_record now symbol isin info hist) ''ISIN'' = Some isin"
  "map_of (ok_record now symbol isin info hist) ''Symbol'' = Some symbol"
  "map_of (ok_record now symbol isin info hist) ''Date'' = Some (PStr (strftime_date now))"
  by (simp_all add: error_record_def ok_record_def key_defs)

lemma record3_identity:
  "map_of (invalid_record3 now symbol isin) ''ISIN'' = Some isin"
  "map_of (invalid_record3 now symbol isin) ''Symbol'' = Some symbol"
  "map_of (invalid_record3 now symbol isin) ''Scraped At'' = Some (PStr (strftime_datetime now))"
  "map_of (error_record3 now symbol isin) ''ISIN'' = Some isin"
  "map_of (error_record3 now symbol isin) ''Symbol'' = Some symbol"
  "map_of (error_record3 now symbol isin) ''Scraped At'' = Some (PStr (strftime_datetime now))"
  "map_of (ok_record3 round2 now symbol isin info hist) ''ISIN'' = Some isin"
  "map_of (ok_record3 round2 now symbol isin info hist) ''Symbol'' = Some symbol"
  "map_of (ok_record3 round2 now symbol isin info hist) ''Scraped At''
     = Some (PStr (strftime_datetime now))"
  by (simp_all add: invalid_record3_def error_record3_def ok_record3_def Let_def key_defs)

lemma strftime_example:
  "strftime_date example_now = ''2025-07-04''"
  "strftime_datetime example_now = ''2025-07-04 09:05:03''"
  by (simp_all add: strftime_datetime_def strftime_date_def pad2_def pad4_def digit_def
      example_now_def)

text \<open>
  C10. Whatever the provider does and whatever the arguments are, the record either
  program returns has one fixed list of eight keys, among them the timestamp
  (\<^verbatim>\<open>Date\<close> in \<^verbatim>\<open>app.py\<close>, \<^verbatim>\<open>Scraped At\<close> in \<^verbatim>\<open>app3.py\<close>), and its \<^verbatim>\<open>ISIN\<close> and \<^verbatim>\<open>Symbol\<close>
  entries are the two arguments of the call.
\<close>

theorem record_carries_its_inputs:
  "map fst (fst (fetch_single_stock p now symbol isin)) =
     [''ISIN'', ''Symbol'', ''Current Price'', ''52 Week High'', ''52 Week Low'',
      todays_high, todays_low, ''Date'']
   \<and> map_of (fst (fetch_single_stock p now symbol isin)) ''ISIN'' = Some isin
   \<and> map_of (fst (fetch_single_stock p now symbol isin)) ''Symbol'' = Some symbol
   \<and> map_of (fst (fetch_single_stock p now symbol isin)) ''Date'' = Some (PStr (strftime_date now))
   \<and> map fst (fst (fetch_single_stock3 p round2 now symbol isin)) =
     [''ISIN'', ''Symbol'', ''Current Price'', week52_high3, week52_low3,
      todays_high, todays_low, ''Scraped At'']
   \<and> map_of (fst (fetch_single_stock3 p round2 now symbol isin)) ''ISIN'' = Some isin
   \<and> map_of (fst (fetch_single_stock3 p round2 now symbol isin)) ''Symbol'' = Some symbol
   \<and> map_of (fst (fetch_single_stock3 p round2 now symbol isin)) ''Scraped At''
       = Some (PStr (strftime_datetime now))"
proof -
  have a: "map fst (fst (fetch_single_stock p now symbol isin)) =
     [''ISIN'', ''Symbol'', ''Current Price'', ''52 Week High'', ''52 Week Low'',
      todays_high, todays_low, ''Date'']
   \<and> map_of (fst (fetch_single_stock p now symbol isin)) ''ISIN'' = Some isin
   \<and> map_of (fst (fetch_single_stock p now symbol isin)) ''Symbol'' = Some symbol
   \<and> map_of (fst (fetch_single_stock p now symbol isin)) ''Date'' = Some (PStr (strftime_date now))"
    using fetch_single_stock_cases [of p now symbol isin]
    by (auto simp only: record_keys record_identity)
  have b: "map fst (fst (fetch_single_stock3 p round2 now symbol isin)) =
     [''ISIN'', ''Symbol'', ''Current Price'', week52_high3, week52_low3,
      todays_high, todays_low, ''Scraped At'']
   \<and> map_of (fst (fetch_single_stock3 p round2 now symbol isin)) ''ISIN'' = Some isin
   \<and> map_of (fst (fetch_single_stock3 p round2 now symbol isin)) ''Symbol'' = Some symbol
   \<and> map_of (fst (fetch_single_stock3 p round2 now symbol isin)) ''Scraped At''
       = Some (PStr (strftime_datetime now))"
    using fetch_single_stock3_cases [of p round2 now symbol isin]
    by (auto simp only: record3_keys record3_identity)
  from a b show ?thesis by (simp only: simp_thms)
qed

theorem record_carries_its_inputs_witness:
  "py_truthy (PStr ''EXMP.NS'') \<and> \<not> pd_isna (PStr ''EXMP.NS'')
   \<and> map fst (fst (fetch_single_stock3 example_provider decimal_round2 example_now
        (PStr ''EXMP.NS'') (PStr ''INE000A01001''))) =
     [''ISIN'', ''Symbol'', ''Current Price'', week52_high3, week52_low3,
      todays_high, todays_low, ''Scraped At'']
   \<and> map_of (fst (fetch_single_stock3 example_provider decimal_round2 example_now
        (PStr ''EXMP.NS'') (PStr ''INE000A01001''))) ''ISIN'' = Some (PStr ''INE000A01001'')
   \<and> map_of (fst (fetch_single_stock3 example_provider decimal_round2 example_now
        (PStr ''EXMP.NS'') (PStr ''INE000A01001''))) ''Symbol'' = Some (PStr ''EXMP.NS'')
   \<and> map_of (fst (fetch_single_stock3 example_provider decimal_round2 example_now
        (PStr ''EXMP.NS'') (PStr ''INE000A01001''))) ''Scraped At''
       = Some (PStr ''2025-07-04 09:05:03'')
   \<and> map_of (fst (fetch_single_stock example_provider example_now
        (PStr ''EXMP.NS'') (PStr ''INE000A01001''))) ''Date'' = Some (PStr ''2025-07-04'')"
proof -
  have g: "py_truthy (PStr ''EXMP.NS'') \<and> \<not> pd_isna (PStr ''EXMP.NS'')"
    by simp
  note inst = record_carries_its_inputs [where p = example_provider and now = example_now
      and symbol = "PStr ''EXMP.NS''" and isin = "PStr ''INE000A01001''"
      and ?round2.0 = decimal_round2]
  show ?thesis
    using g inst by (simp only: strftime_example simp_thms)
qed

section \<open>Properties of the parallel symbol mapping\<close>

lemma list_setitem_in_range:
  "0 \<le> i \<Longrightarrow> i < int (length xs) \<Longrightarrow> list_setitem xs i v = Inr (xs[nat i := v])"
  by (simp add: list_setitem_def Let_def)

lemma collect_results_fold:
  "\<forall>f\<in>set cs. 0 \<le> snd f \<and> snd f < int (length rs) \<Longrightarrow>
     collect_results cs rs = Inr (fold store cs rs)"
proof (induction cs arbitrary: rs)
  case Nil
  show ?case by simp
next
  case (Cons f cs)
  obtain oc i where f: "f = (oc, i)" by (cases f)
  have range: "0 \<le> i" "i < int (length rs)"
    using Cons.prems f by auto
  have rest: "\<forall>g\<in>set cs. 0 \<le> snd g \<and> snd g < int (length (rs[nat i := stored oc]))"
    using Cons.prems by simp
  show ?case
    using Cons.IH [OF rest] range f
    by (cases oc) (simp_all add: list_setitem_in_range store_def)
qed

lemma fold_store_length: "length (fold store cs rs) = length rs"
  by (induction cs arbitrary: rs) (simp_all add: store_def)

lemma fold_store_other:
  "int j \<notin> snd ` set cs \<Longrightarrow> \<forall>f\<in>set cs. 0 \<le> snd f \<Longrightarrow> fold store cs rs ! j = rs ! j"
proof (induction cs arbitrary: rs)
  case Nil
  show ?case by simp
next
  case (Cons f cs)
  have neq: "nat (snd f) \<noteq> j"
    using Cons.prems by auto
  have "fold store (f # cs) rs ! j = fold store cs (store f rs) ! j"
    by simp
  also have "\<dots> = store f rs ! j"
    using Cons.prems by (intro Cons.IH) auto
  also have "\<dots> = rs ! j"
    using neq by (simp add: store_def)
  finally show ?case .
qed

lemma fold_store_at:
  "distinct (map snd cs) \<Longrightarrow> \<forall>f\<in>set cs. 0 \<le> snd f \<Longrightarrow> (oc, int j) \<in> set cs \<Longrightarrow>
     j < length rs \<Longrightarrow> fold store cs rs ! j = stored oc"
proof (induction cs arbitrary: rs)
  case Nil
  then show ?case by simp
next
  case (Cons f cs)
  show ?case
  proof (cases "f = (oc, int j)")
    case True
    have notin: "int j \<notin> snd ` set cs"
      using Cons.prems(1) True by auto
    have nonneg: "\<forall>g\<in>set cs. 0 \<le> snd g"
      using Cons.prems(2) by simp
    have "fold store (f # cs) rs ! j = fold store cs (store f rs) ! j"
      by simp
    also have "\<dots> = store f rs ! j"
      by (rule fold_store_other [OF notin nonneg])
    also have "\<dots> = stored oc"
      using True Cons.prems(4) by (simp add: store_def)
    finally show ?thesis .
  next
    case False
    then have mem: "(oc, int j) \<in> set cs"
      using Cons.prems(3) by simp
    have d: "distinct (map snd cs)"
      using Cons.prems(1) by simp
    have nonneg: "\<forall>g\<in>set cs. 0 \<le> snd g"
      using Cons.prems(2) by simp
    have len: "j < length (store f rs)"
      using Cons.prems(4) by (simp add: store_def)
    have "fold store (f # cs) rs ! j = fold store cs (store f rs) ! j"
      by simp
    also have "\<dots> = stored oc"
      by (rule Cons.IH [OF d nonneg mem len])
    finally show ?thesis .
  qed
qed

lemma collect_results_permutation:
  assumes labels: "map snd fs = map int [0..<length fs]"
    and perm: "mset cs = mset fs"
  shows "collect_results cs (replicate (length fs) JNull) = Inr (map (\<lambda>f. stored (fst f)) fs)"
proof -
  have set_eq: "set cs = set fs"
    using perm by (rule mset_eq_setD)
  have "mset (map snd cs) = mset (map snd fs)"
    using perm by simp
  moreover have "distinct (map snd fs)"
    by (simp add: labels distinct_map inj_on_def)
  ultimately have dist: "distinct (map snd cs)"
    by (metis mset_eq_imp_distinct_iff)
  have range: "\<forall>f\<in>set cs. 0 \<le> snd f \<and> snd f < int (length (replicate (length fs) JNull))"
  proof
    fix f assume "f \<in> set cs"
    then have "snd f \<in> set (map snd fs)"
      using set_eq by simp
    then have "snd f \<in> set (map int [0..<length fs])"
      by (simp only: labels)
    then show "0 \<le> snd f \<and> snd f < int (length (replicate (length fs) JNull))"
      by auto
  qed
  have nonneg: "\<forall>f\<in>set cs. 0 \<le> snd f"
    using range by blast
  have eq: "collect_results cs (replicate (length fs) JNull)
      = Inr (fold store cs (replicate (length fs) JNull))"
    by (rule collect_results_fold [OF range])
  have "fold store cs (replicate (length fs) JNull) = map (\<lambda>f. stored (fst f)) fs"
  proof (rule nth_equalityI)
    show "length (fold store cs (replicate (length fs) JNull)) = length (map (\<lambda>f. stored (fst f)) fs)"
      by (simp add: fold_store_length)
  next
    fix j assume "j < length (fold store cs (replicate (length fs) JNull))"
    then have j: "j < length fs"
      by (simp add: fold_store_length)
    have "map snd fs ! j = map int [0..<length fs] ! j"
      by (simp only: labels)
    then have "snd (fs ! j) = int j"
      using j by simp
    then have "(fst (fs ! j), int j) = fs ! j"
      by (metis prod.collapse)
    then have mem: "(fst (fs ! j), int j) \<in> set cs"
      using set_eq j by (metis nth_mem)
    have jr: "j < length (replicate (length fs) JNull)"
      using j by simp
    show "fold store cs (replicate (length fs) JNull) ! j = map (\<lambda>f. stored (fst f)) fs ! j"
      using fold_store_at [OF dist nonneg mem jr] j by simp
  qed
  with eq show ?thesis by simp
qed

lemma pool_map_results:
  assumes "0 < max_threads" and "map fst df = map int [0..<length df]"
    and "\<forall>fs. mset (as_completed fs) = mset fs"
  shows "pool_map worker as_completed df max_threads
     = Inr (map (\<lambda>r. stored (worker (COMPANYNAME (snd r)))) df)"
proof -
  define futures where "futures = map (\<lambda>r. (worker (COMPANYNAME (snd r)), fst r)) df"
  have len: "length futures = length df"
    by (simp add: futures_def)
  have labels: "map snd futures = map int [0..<length futures]"
    using assms(2) by (simp add: futures_def comp_def)
  have perm: "mset (as_completed futures) = mset futures"
    using assms(3) by blast
  have "collect_results (as_completed futures) (replicate (length futures) JNull)
      = Inr (map (\<lambda>f. stored (fst f)) futures)"
    by (rule collect_results_permutation [OF labels perm])
  moreover have "map (\<lambda>f. stored (fst f)) futures = map (\<lambda>r. stored (worker (COMPANYNAME (snd r)))) df"
    by (simp add: futures_def comp_def)
  ultimately show ?thesis
    using assms(1) by (simp add: pool_map_def Let_def futures_def)
qed

lemma example_df_labels: "map fst example_df = map int [0..<length example_df]"
  by (simp add: example_df_def upt_rec)

text \<open>
  C2. For a table of n rows under its default index 0, ..., n-1 (what \<^verbatim>\<open>read_csv\<close>
  gives), a positive pool size, and every order in which the pool may complete the futures
  (any permutation of them), either program returns a list of length n whose element i is
  what the resolver produced for row i (\<^verbatim>\<open>None\<close> when it raised).
\<close>

theorem results_follow_submission_index:
  assumes "0 < max_threads" and "map fst df = map int [0..<length df]"
    and "\<forall>fs. mset (as_completed fs) = mset fs"
  shows "(\<exists>results. fetch_yahoo_tickers_parallel net as_completed df max_threads = Inr results
            \<and> length results = length df
            \<and> (\<forall>i<length df. results ! i
                 = stored (fst (get_yahoo_symbol_via_api net (COMPANYNAME (snd (df ! i)))))))
       \<and> (\<exists>results. fetch_yahoo_tickers_parallel3 net as_completed df max_threads = Inr results
            \<and> length results = length df
            \<and> (\<forall>i<length df. results ! i
                 = stored (fst (get_yahoo_symbol_via_api3 net (COMPANYNAME (snd (df ! i)))))))"
  by (simp add: fetch_yahoo_tickers_parallel_def fetch_yahoo_tickers_parallel3_def
      pool_map_results [OF assms])

theorem results_follow_submission_index_witness:
  "0 < (20::int) \<and> map fst example_df = map int [0..<length example_df]
   \<and> (\<forall>fs::future list. mset (rev fs) = mset fs)
   \<and> fetch_yahoo_tickers_parallel example_network rev example_df 20
       = Inr [JStr ''EXMP.NS'', JNull, JNull]
   \<and> fetch_yahoo_tickers_parallel3 example_network rev example_df 20
       = Inr [JStr ''EXMP.NS'', JNull, JNull]"
proof -
  have h1: "0 < (20::int)" by simp
  have h3: "\<forall>fs::future list. mset (rev fs) = mset fs" by simp
  note h2 = example_df_labels
  have len: "length example_df = 3"
    by (simp add: example_df_def)
  have nyq: "scan_quotes [JObj nyq_candidate] = Inr JNull"
    by (simp add: nyq_candidate_def dict_get_def accepted_exchange_def)
  have nsi: "scan_quotes ([JObj nyq_candidate] @ JObj nsi_candidate # [JObj bse_candidate, JStr ''garbage''])
      = Inr (JStr ''EXMP.NS'')"
    by (simp add: nyq_candidate_def nsi_candidate_def dict_get_def accepted_exchange_def)
  have w: "stored (fst (get_yahoo_symbol_via_api example_network (PStr ''Example Corp''))) = JStr ''EXMP.NS''"
    "stored (fst (get_yahoo_symbol_via_api example_network (PFloat NaN))) = JNull"
    "stored (fst (get_yahoo_symbol_via_api example_network (PStr ''Foreign Inc''))) = JNull"
    "stored (fst (get_yahoo_symbol_via_api3 example_network (PStr ''Example Corp''))) = JStr ''EXMP.NS''"
    "stored (fst (get_yahoo_symbol_via_api3 example_network (PFloat NaN))) = JNull"
    "stored (fst (get_yahoo_symbol_via_api3 example_network (PStr ''Foreign Inc''))) = JNull"
    using nyq nsi
    by (simp_all add: api_result api3_result search_body_def example_network_example
        example_network_foreign select_symbol_def dict_get_def
        get_yahoo_symbol_via_api_def get_yahoo_symbol_via_api3_def)
  obtain r where r: "fetch_yahoo_tickers_parallel example_network rev example_df 20 = Inr r"
    "length r = length example_df"
    "\<forall>i<length example_df. r ! i
       = stored (fst (get_yahoo_symbol_via_api example_network (COMPANYNAME (snd (example_df ! i)))))"
    using results_follow_submission_index [OF h1 h2 h3, of example_network] by blast
  obtain r3 where r3: "fetch_yahoo_tickers_parallel3 example_network rev example_df 20 = Inr r3"
    "length r3 = length example_df"
    "\<forall>i<length example_df. r3 ! i
       = stored (fst (get_yahoo_symbol_via_api3 example_network (COMPANYNAME (snd (example_df ! i)))))"
    using results_follow_submission_index [OF h1 h2 h3, of example_network] by blast
  have "length r = 3"
    using r(2) len by simp
  then obtain a b c where abc: "r = [a, b, c]"
    by (auto simp: numeral_3_eq_3 length_Suc_conv)
  have a: "a = JStr ''EXMP.NS''"
    using r(3) [rule_format, of 0] by (simp add: abc example_df_def w)
  have b: "b = JNull"
    using r(3) [rule_format, of 1] by (simp add: abc example_df_def w)
  have c: "c = JNull"
    using r(3) [rule_format, of 2] by (simp add: abc example_df_def w)
  have "length r3 = 3"
    using r3(2) len by simp
  then obtain a3 b3 c3 where abc3: "r3 = [a3, b3, c3]"
    by (auto simp: numeral_3_eq_3 length_Suc_conv)
  have a3: "a3 = JStr ''EXMP.NS''"
    using r3(3) [rule_format, of 0] by (simp add: abc3 example_df_def w)
  have b3: "b3 = JNull"
    using r3(3) [rule_format, of 1] by (simp add: abc3 example_df_def w)
  have c3: "c3 = JNull"
    using r3(3) [rule_format, of 2] by (simp add: abc3 example_df_def w)
  have "r = [JStr ''EXMP.NS'', JNull, JNull]"
    by (simp add: abc a b c)
  moreover have "r3 = [JStr ''EXMP.NS'', JNull, JNull]"
    by (simp add: abc3 a3 b3 c3)
  ultimately show ?thesis
    using h1 h2 h3 r(1) r3(1) by simp
qed

text \<open>
  C3. Under the same conditions, when the resolver raises on row k, slot k of the returned
  list is \<^verbatim>\<open>None\<close>, the list is still returned in full, and every other slot j holds what
  the resolver produced for row j.
\<close>

theorem worker_failure_is_isolated:
  assumes "0 < max_threads" and "map fst df = map int [0..<length df]"
    and "\<forall>fs. mset (as_completed fs) = mset fs"
    and "k < length df"
    and "fst (get_yahoo_symbol_via_api net (COMPANYNAME (snd (df ! k)))) = Inl e"
    and "fst (get_yahoo_symbol_via_api3 net (COMPANYNAME (snd (df ! k)))) = Inl e3"
  shows "(\<exists>results. fetch_yahoo_tickers_parallel net as_completed df max_threads = Inr results
            \<and> length results = length df
            \<and> results ! k = JNull
            \<and> (\<forall>j<length df. j \<noteq> k \<longrightarrow> (\<forall>v.
                 fst (get_yahoo_symbol_via_api net (COMPANYNAME (snd (df ! j)))) = Inr v
                 \<longrightarrow> results ! j = v)))
       \<and> (\<exists>results. fetch_yahoo_tickers_parallel3 net as_completed df max_threads = Inr results
            \<and> length results = length df
            \<and> results ! k = JNull
            \<and> (\<forall>j<length df. j \<noteq> k \<longrightarrow> (\<forall>v.
                 fst (get_yahoo_symbol_via_api3 net (COMPANYNAME (snd (df ! j)))) = Inr v
                 \<longrightarrow> results ! j = v)))"
  using assms(4) assms(5) assms(6)
  by (simp add: fetch_yahoo_tickers_parallel_def fetch_yahoo_tickers_parallel3_def
      pool_map_results [OF assms(1) assms(2) assms(3)])

theorem worker_failure_is_isolated_witness:
  "0 < (20::int) \<and> map fst example_df = map int [0..<length example_df]
   \<and> (\<forall>fs::future list. mset (rev fs) = mset fs)
   \<and> 1 < length example_df
   \<and> fst (get_yahoo_symbol_via_api example_network (COMPANYNAME (snd (example_df ! 1)))) = Inl AttributeError
   \<and> fst (get_yahoo_symbol_via_api3 example_network (COMPANYNAME (snd (example_df ! 1)))) = Inl AttributeError
   \<and> (\<exists>results. fetch_yahoo_tickers_parallel example_network rev example_df 20 = Inr results
        \<and> length results = length example_df
        \<and> results ! 1 = JNull
        \<and> (\<forall>j<length example_df. j \<noteq> 1 \<longrightarrow> (\<forall>v.
             fst (get_yahoo_symbol_via_api example_network (COMPANYNAME (snd (example_df ! j)))) = Inr v
             \<longrightarrow> results ! j = v)))"
proof -
  have h1: "0 < (20::int)" by simp
  have h3: "\<forall>fs::future list. mset (rev fs) = mset fs" by simp
  note h2 = example_df_labels
  have h4: "1 < length example_df"
    by (simp add: example_df_def)
  have h5: "fst (get_yahoo_symbol_via_api example_network (COMPANYNAME (snd (example_df ! 1))))
      = Inl AttributeError"
    by (simp add: example_df_def get_yahoo_symbol_via_api_def)
  have h6: "fst (get_yahoo_symbol_via_api3 example_network (COMPANYNAME (snd (example_df ! 1))))
      = Inl AttributeError"
    by (simp add: example_df_def get_yahoo_symbol_via_api3_def)
  show ?thesis
    using h1 h2 h3 h4 h5 h6
      worker_failure_is_isolated [OF h1 h2 h3 h4 h5 h6]
    by blast
qed

end
